theory Spec2Isabelle
  imports Main "HOL-Library.Multiset"
begin

section \<open>Python values, request payloads and exceptions\<close>

text \<open>
  The handlers of \<^verbatim>\<open>app/app.py\<close> read a JSON object (\<^verbatim>\<open>request.get_json()\<close>), a form
  (\<^verbatim>\<open>request.form\<close>) or query parameters (\<^verbatim>\<open>request.args\<close>). A JSON object is a Python
  dict from keys to JSON values; a value can be of any JSON type, and the handlers store
  it in a column without looking at its type. Floats are left out.
\<close>

datatype pyval =
    PNone
  | PBool bool
  | PInt int
  | PStr string
  | PList "pyval list"
  | PDict "(string \<times> pyval) list"

text \<open>Python truthiness, as used by \<^verbatim>\<open>if not data.get('title')\<close>.\<close>

fun truthy :: "pyval \<Rightarrow> bool" where
  "truthy PNone = False"
| "truthy (PBool b) = b"
| "truthy (PInt n) = (n \<noteq> 0)"
| "truthy (PStr s) = (s \<noteq> [])"
| "truthy (PList xs) = (xs \<noteq> [])"
| "truthy (PDict kvs) = (kvs \<noteq> [])"

type_synonym payload = "string \<rightharpoonup> pyval"
type_synonym form = "string \<rightharpoonup> string"
type_synonym datetime = int

text \<open>\<^verbatim>\<open>data.get(k, default)\<close>\<close>

definition dict_get :: "payload \<Rightarrow> string \<Rightarrow> pyval \<Rightarrow> pyval" where
  "dict_get data k dflt = (case data k of None \<Rightarrow> dflt | Some v \<Rightarrow> v)"

datatype exn =
    ValueError string
  | TypeError
  | KeyError string
  | BadRequestKeyError string
  | StoreError string
  | AttributeError

section \<open>The Task table\<close>

text \<open>
  Modelled from the spec: the \<^verbatim>\<open>Task\<close> model of \<^verbatim>\<open>models.py\<close>, which is not among the
  sources. Its columns are the attributes of the spec's data model; the primary key is
  called \<open>id'\<close> here.
\<close>

record task =
  id' :: nat
  title :: pyval
  description :: pyval
  status :: pyval
  priority :: pyval
  due_date :: "datetime option"
  created_at :: datetime
  updated_at :: datetime

text \<open>
  What a request cannot decide by itself: the clock, the parser of ISO dates, and
  whether an access to the store raises (\<open>Some m\<close>: it raises with message \<open>m\<close>).
\<close>

record env =
  utcnow :: datetime
  fromisoformat :: "string \<Rightarrow> datetime option"
  query_raises :: "string option"
  commit_raises :: "string option"
  metrics_raises :: "string option"

text \<open>
  Modelled from the spec: the constructor of \<^verbatim>\<open>Task\<close>. The handlers pass title,
  description, priority and (the API only) due date; the status defaults to \<^verbatim>\<open>todo\<close>
  and both timestamps to the current time. The key is assigned by the store.
\<close>

definition Task :: "env \<Rightarrow> pyval \<Rightarrow> pyval \<Rightarrow> pyval \<Rightarrow> datetime option \<Rightarrow> task" where
  "Task e ttl descr prio due =
     \<lparr> id' = 0, title = ttl, description = descr, status = PStr ''todo'',
       priority = prio, due_date = due, created_at = utcnow e, updated_at = utcnow e \<rparr>"

text \<open>
  The store within one request: the committed table, and the session's view of it with
  the changes not yet committed.
\<close>

record db =
  committed :: "task list"
  session :: "task list"

definition begin_request :: "task list \<Rightarrow> db" where
  "begin_request tbl = \<lparr> committed = tbl, session = tbl \<rparr>"

definition rollback :: "db \<Rightarrow> db" where
  "rollback d = d\<lparr>session := committed d\<rparr>"

definition commit :: "env \<Rightarrow> db \<Rightarrow> exn + db" where
  "commit e d =
     (case commit_raises e of
        Some m \<Rightarrow> Inl (StoreError m)
      | None \<Rightarrow> Inr (d\<lparr>committed := session d\<rparr>))"

text \<open>Modelled from the spec: the store assigns a key that no row has.\<close>

definition new_id :: "task list \<Rightarrow> nat" where
  "new_id rows = Suc (fold max (map id' rows) 0)"

text \<open>\<^verbatim>\<open>db.session.add(task)\<close>; the object is returned with its key.\<close>

definition session_add :: "task \<Rightarrow> db \<Rightarrow> task \<times> db" where
  "session_add t d =
     (let t' = t\<lparr>id' := new_id (session d)\<rparr>
      in (t', d\<lparr>session := session d @ [t']\<rparr>))"

text \<open>\<^verbatim>\<open>db.session.delete(task)\<close>\<close>

definition session_delete :: "task \<Rightarrow> db \<Rightarrow> db" where
  "session_delete t d = d\<lparr>session := filter (\<lambda>r. id' r \<noteq> id' t) (session d)\<rparr>"

text \<open>An assignment to attributes of a loaded object: the session's row of that key changes.\<close>

definition session_set :: "task \<Rightarrow> db \<Rightarrow> db" where
  "session_set t d = d\<lparr>session := map (\<lambda>r. if id' r = id' t then t else r) (session d)\<rparr>"

text \<open>\<^verbatim>\<open>Task.query.get(task_id)\<close>\<close>

definition query_get :: "env \<Rightarrow> db \<Rightarrow> nat \<Rightarrow> exn + task option" where
  "query_get e d task_id =
     (case query_raises e of
        Some m \<Rightarrow> Inl (StoreError m)
      | None \<Rightarrow> Inr (find (\<lambda>r. id' r = task_id) (session d)))"

text \<open>
  \<^verbatim>\<open>update_metrics()\<close>: one count query per status; the counts go to the gauges of the
  metrics registry, which is no part of the store.
\<close>

definition update_metrics :: "env \<Rightarrow> db \<Rightarrow> exn + (string \<times> nat) list" where
  "update_metrics e d =
     (case metrics_raises e of
        Some m \<Rightarrow> Inl (StoreError m)
      | None \<Rightarrow>
          Inr (map (\<lambda>s. (s, length (filter (\<lambda>r. status r = PStr s) (session d))))
                   [''todo'', ''in_progress'', ''done'']))"

section \<open>Responses\<close>

datatype errtext = Lit string | Str exn

datatype json_body =
    Error errtext
  | TaskJson task
  | TasksJson "task list"
  | Deleted

datatype response =
    Json json_body nat
  | Redirect string
  | Render string "errtext option" nat

fun status_code :: "response \<Rightarrow> nat" where
  "status_code (Json _ c) = c"
| "status_code (Redirect _) = 302"
| "status_code (Render _ _ c) = c"

text \<open>
  \<^verbatim>\<open>datetime.fromisoformat\<close> on a value of any type: a string that is no ISO date
  raises ValueError, a value that is no string raises TypeError.
\<close>

definition py_fromisoformat :: "env \<Rightarrow> pyval \<Rightarrow> exn + datetime" where
  "py_fromisoformat e v =
     (case v of
        PStr s \<Rightarrow> (case fromisoformat e s of None \<Rightarrow> Inl (ValueError s) | Some t \<Rightarrow> Inr t)
      | _ \<Rightarrow> Inl TypeError)"

text \<open>
  \<^verbatim>\<open>datetime.fromisoformat(data['due_date']) if data['due_date'] else None\<close>, which is
  also what \<^verbatim>\<open>create_task\<close> computes from \<^verbatim>\<open>data.get('due_date')\<close>.
\<close>

definition due_date_of :: "env \<Rightarrow> pyval \<Rightarrow> exn + datetime option" where
  "due_date_of e v =
     (if truthy v
      then (case py_fromisoformat e v of Inl ex \<Rightarrow> Inl ex | Inr t \<Rightarrow> Inr (Some t))
      else Inr None)"

section \<open>Route handlers\<close>

text \<open>
  A handler takes the store and returns the store together with a response, or with
  the exception that left the handler uncaught.
\<close>

type_synonym handler = "db \<Rightarrow> (exn + response) \<times> db"

text \<open>\<^verbatim>\<open>@app.errorhandler(500)\<close>\<close>

definition internal_error :: "db \<Rightarrow> response \<times> db" where
  "internal_error d = (Json (Error (Lit ''Internal server error'')) 500, rollback d)"

text \<open>One request against the committed table \<open>tbl\<close>.\<close>

definition serve :: "handler \<Rightarrow> task list \<Rightarrow> response \<times> db" where
  "serve h tbl =
     (case h (begin_request tbl) of
        (Inl ex, d) \<Rightarrow> internal_error d
      | (Inr r, d) \<Rightarrow> (r, d))"

subsection \<open>GET /api/tasks\<close>

text \<open>
  The query that \<^verbatim>\<open>get_tasks\<close> builds: a filter for each parameter that is truthy
  (present and not the empty string), then \<^verbatim>\<open>ORDER BY created_at DESC\<close>. The order
  among rows of equal \<^verbatim>\<open>created_at\<close> is the store's; here it is the table's.
\<close>

definition tasks_query :: "string option \<Rightarrow> string option \<Rightarrow> task list \<Rightarrow> task list" where
  "tasks_query st prio rows =
     (let q0 = rows;
          q1 = (case st of
                  Some s \<Rightarrow> if s \<noteq> [] then filter (\<lambda>r. status r = PStr s) q0 else q0
                | None \<Rightarrow> q0);
          q2 = (case prio of
                  Some p \<Rightarrow> if p \<noteq> [] then filter (\<lambda>r. priority r = PStr p) q1 else q1
                | None \<Rightarrow> q1)
      in sort_key (\<lambda>r. - created_at r) q2)"

definition get_tasks :: "env \<Rightarrow> string option \<Rightarrow> string option \<Rightarrow> handler" where
  "get_tasks e st prio d =
     (case query_raises e of
        Some m \<Rightarrow> (Inl (StoreError m), d)
      | None \<Rightarrow> (Inr (Json (TasksJson (tasks_query st prio (session d))) 200), d))"

subsection \<open>POST /api/tasks\<close>

text \<open>The \<^verbatim>\<open>try\<close> block of \<^verbatim>\<open>create_task\<close>; \<open>Inl\<close> is the exception it raises.\<close>

definition create_task_try :: "env \<Rightarrow> payload \<Rightarrow> handler" where
  "create_task_try e data d =
     (case due_date_of e (dict_get data ''due_date'' PNone) of
        Inl ex \<Rightarrow> (Inl ex, d)
      | Inr due \<Rightarrow>
          (case data ''title'' of
             None \<Rightarrow> (Inl (KeyError ''title''), d)
           | Some ttl \<Rightarrow>
               (let (t, d1) = session_add
                       (Task e ttl (dict_get data ''description'' (PStr ''''))
                          (dict_get data ''priority'' (PStr ''medium'')) due) d
                in case commit e d1 of
                     Inl ex \<Rightarrow> (Inl ex, d1)
                   | Inr d2 \<Rightarrow>
                       (case update_metrics e d2 of
                          Inl ex \<Rightarrow> (Inl ex, d2)
                        | Inr _ \<Rightarrow> (Inr (Json (TaskJson t) 201), d2)))))"

definition create_task :: "env \<Rightarrow> payload \<Rightarrow> handler" where
  "create_task e data d =
     (if \<not> truthy (dict_get data ''title'' PNone)
      then (Inr (Json (Error (Lit ''Title is required'')) 400), d)
      else (case create_task_try e data d of
              (Inl ex, d') \<Rightarrow> (Inr (Json (Error (Str ex)) 400), rollback d')
            | (Inr r, d') \<Rightarrow> (Inr r, d')))"


subsection \<open>GET /api/tasks/<id>\<close>

definition get_task :: "env \<Rightarrow> nat \<Rightarrow> handler" where
  "get_task e task_id d =
     (case query_get e d task_id of
        Inl ex \<Rightarrow> (Inl ex, d)
      | Inr None \<Rightarrow> (Inr (Json (Error (Lit ''Task not found'')) 404), d)
      | Inr (Some t) \<Rightarrow> (Inr (Json (TaskJson t) 200), d))"

subsection \<open>PUT /api/tasks/<id>\<close>

text \<open>The four assignments guarded by \<^verbatim>\<open>if '<field>' in data\<close>, in the source's order.\<close>

definition assign_fields :: "payload \<Rightarrow> task \<Rightarrow> task" where
  "assign_fields data t =
     (let t1 = (case data ''title'' of Some v \<Rightarrow> t\<lparr>title := v\<rparr> | None \<Rightarrow> t);
          t2 = (case data ''description'' of Some v \<Rightarrow> t1\<lparr>description := v\<rparr> | None \<Rightarrow> t1);
          t3 = (case data ''status'' of Some v \<Rightarrow> t2\<lparr>status := v\<rparr> | None \<Rightarrow> t2);
          t4 = (case data ''priority'' of Some v \<Rightarrow> t3\<lparr>priority := v\<rparr> | None \<Rightarrow> t3)
      in t4)"

text \<open>The \<^verbatim>\<open>try\<close> block of \<^verbatim>\<open>update_task\<close>, for the task the lookup returned.\<close>

definition update_task_try :: "env \<Rightarrow> payload \<Rightarrow> task \<Rightarrow> handler" where
  "update_task_try e data t d =
     (let t4 = assign_fields data t;
          d4 = session_set t4 d
      in case (case data ''due_date'' of
                 Some v \<Rightarrow> (case due_date_of e v of
                              Inl ex \<Rightarrow> Inl ex
                            | Inr due \<Rightarrow> Inr (t4\<lparr>due_date := due\<rparr>))
               | None \<Rightarrow> Inr t4) of
           Inl ex \<Rightarrow> (Inl ex, d4)
         | Inr t5 \<Rightarrow>
             (let t6 = t5\<lparr>updated_at := utcnow e\<rparr>;
                  d6 = session_set t6 d4
              in case commit e d6 of
                   Inl ex \<Rightarrow> (Inl ex, d6)
                 | Inr d7 \<Rightarrow>
                     (case update_metrics e d7 of
                        Inl ex \<Rightarrow> (Inl ex, d7)
                      | Inr _ \<Rightarrow> (Inr (Json (TaskJson t6) 200), d7))))"

definition update_task :: "env \<Rightarrow> nat \<Rightarrow> payload \<Rightarrow> handler" where
  "update_task e task_id data d =
     (case query_get e d task_id of
        Inl ex \<Rightarrow> (Inl ex, d)
      | Inr None \<Rightarrow> (Inr (Json (Error (Lit ''Task not found'')) 404), d)
      | Inr (Some t) \<Rightarrow>
          (case update_task_try e data t d of
             (Inl ex, d') \<Rightarrow> (Inr (Json (Error (Str ex)) 400), rollback d')
           | (Inr r, d') \<Rightarrow> (Inr r, d')))"

subsection \<open>DELETE /api/tasks/<id>\<close>

definition delete_task_try :: "env \<Rightarrow> task \<Rightarrow> handler" where
  "delete_task_try e t d =
     (let d1 = session_delete t d
      in case commit e d1 of
           Inl ex \<Rightarrow> (Inl ex, d1)
         | Inr d2 \<Rightarrow>
             (case update_metrics e d2 of
                Inl ex \<Rightarrow> (Inl ex, d2)
              | Inr _ \<Rightarrow> (Inr (Json Deleted 200), d2)))"

definition delete_task :: "env \<Rightarrow> nat \<Rightarrow> handler" where
  "delete_task e task_id d =
     (case query_get e d task_id of
        Inl ex \<Rightarrow> (Inl ex, d)
      | Inr None \<Rightarrow> (Inr (Json (Error (Lit ''Task not found'')) 404), d)
      | Inr (Some t) \<Rightarrow>
          (case delete_task_try e t d of
             (Inl ex, d') \<Rightarrow> (Inr (Json (Error (Str ex)) 400), rollback d')
           | (Inr r, d') \<Rightarrow> (Inr r, d')))"

subsection \<open>GET and POST /task/new\<close>

definition new_task_try :: "env \<Rightarrow> form \<Rightarrow> handler" where
  "new_task_try e frm d =
     (case frm ''title'' of
        None \<Rightarrow> (Inl (BadRequestKeyError ''title''), d)
      | Some ttl \<Rightarrow>
          (let (t, d1) = session_add
                  (Task e (PStr ttl)
                     (case frm ''description'' of None \<Rightarrow> PStr '''' | Some s \<Rightarrow> PStr s)
                     (case frm ''priority'' of None \<Rightarrow> PStr ''medium'' | Some s \<Rightarrow> PStr s)
                     None) d
           in case commit e d1 of
                Inl ex \<Rightarrow> (Inl ex, d1)
              | Inr d2 \<Rightarrow>
                  (case update_metrics e d2 of
                     Inl ex \<Rightarrow> (Inl ex, d2)
                   | Inr _ \<Rightarrow> (Inr (Redirect ''/''), d2))))"

definition new_task :: "env \<Rightarrow> string \<Rightarrow> form \<Rightarrow> handler" where
  "new_task e method frm d =
     (if method = ''POST''
      then (case new_task_try e frm d of
              (Inl ex, d') \<Rightarrow> (Inr (Render ''new_task.html'' (Some (Str ex)) 400), rollback d')
            | (Inr r, d') \<Rightarrow> (Inr r, d'))
      else (Inr (Render ''new_task.html'' None 200), d))"

subsection \<open>GET /task/<id>/status/<status>\<close>

definition update_task_status :: "env \<Rightarrow> nat \<Rightarrow> string \<Rightarrow> handler" where
  "update_task_status e task_id st d =
     (if st \<notin> set [''todo'', ''in_progress'', ''done'']
      then (Inr (Redirect ''/''), d)
      else (case query_get e d task_id of
              Inl ex \<Rightarrow> (Inl ex, d)
            | Inr None \<Rightarrow> (Inr (Redirect ''/''), d)
            | Inr (Some t) \<Rightarrow>
                (let t1 = t\<lparr>status := PStr st\<rparr>;
                     t2 = t1\<lparr>updated_at := utcnow e\<rparr>;
                     d2 = session_set t2 d
                 in case commit e d2 of
                      Inl ex \<Rightarrow> (Inl ex, d2)
                    | Inr d3 \<Rightarrow>
                        (case update_metrics e d3 of
                           Inl ex \<Rightarrow> (Inl ex, d3)
                         | Inr _ \<Rightarrow> (Inr (Redirect ''/''), d3)))))"

section \<open>Example requests\<close>

text \<open>
  A clock reading, a parser that knows one date, and a store that answers; then the same
  with a store that fails at the lookup, at the commit, or at the count queries of
  \<^verbatim>\<open>update_metrics\<close> after the commit went through.
\<close>

definition env0 :: env where
  "env0 = \<lparr> utcnow = 100,
            fromisoformat = (\<lambda>s. if s = ''2030-01-01'' then Some 500 else None),
            query_raises = None, commit_raises = None, metrics_raises = None \<rparr>"

definition env_query_fails :: env where
  "env_query_fails = env0\<lparr>query_raises := Some ''connection refused''\<rparr>"

definition env_commit_fails :: env where
  "env_commit_fails = env0\<lparr>commit_raises := Some ''database is locked''\<rparr>"

definition env_metrics_fails :: env where
  "env_metrics_fails = env0\<lparr>metrics_raises := Some ''connection lost''\<rparr>"

definition task1 :: task where
  "task1 = \<lparr> id' = 1, title = PStr ''write report'', description = PStr '''',
             status = PStr ''todo'', priority = PStr ''high'', due_date = Some 40,
             created_at = 10, updated_at = 10 \<rparr>"

definition task2 :: task where
  "task2 = \<lparr> id' = 2, title = PStr ''buy milk'', description = PStr ''2 l'',
             status = PStr ''done'', priority = PStr ''low'', due_date = None,
             created_at = 20, updated_at = 30 \<rparr>"

text \<open>\<^verbatim>\<open>{"title": "Buy milk"}\<close>\<close>

definition payload_title :: payload where
  "payload_title = [''title'' \<mapsto> PStr ''Buy milk'']"

text \<open>\<^verbatim>\<open>{"title": "Buy milk", "status": "done", "priority": "high"}\<close>\<close>

definition payload_full :: payload where
  "payload_full = [''title'' \<mapsto> PStr ''Buy milk'', ''status'' \<mapsto> PStr ''done'',
                   ''priority'' \<mapsto> PStr ''high'']"

text \<open>\<^verbatim>\<open>{"description": "twice"}\<close>: no title.\<close>

definition payload_no_title :: payload where
  "payload_no_title = [''description'' \<mapsto> PStr ''twice'']"

text \<open>\<^verbatim>\<open>{"title": "Buy milk", "due_date": "tomorrow"}\<close>\<close>

definition payload_bad_date :: payload where
  "payload_bad_date = [''title'' \<mapsto> PStr ''Buy milk'', ''due_date'' \<mapsto> PStr ''tomorrow'']"

text \<open>\<^verbatim>\<open>{"status": "bogus"}\<close>\<close>

definition payload_bogus_status :: payload where
  "payload_bogus_status = [''status'' \<mapsto> PStr ''bogus'']"

text \<open>\<^verbatim>\<open>{"title": "report v2", "due_date": null}\<close>\<close>

definition payload_put :: payload where
  "payload_put = [''title'' \<mapsto> PStr ''report v2'', ''due_date'' \<mapsto> PNone]"

text \<open>The form of \<^verbatim>\<open>/task/new\<close> sent with an empty title, and sent with a title.\<close>

definition form_empty_title :: form where
  "form_empty_title = [''title'' \<mapsto> '''', ''priority'' \<mapsto> ''medium'']"

definition form_titled :: form where
  "form_titled = [''title'' \<mapsto> ''Buy milk'', ''priority'' \<mapsto> ''low'']"



text \<open>
  The table after \<^verbatim>\<open>POST /api/tasks {"title": "Buy milk"}\<close> on an empty table and then
  \<^verbatim>\<open>PUT /api/tasks/1 {"status": "bogus"}\<close>.
\<close>

definition table_after_put :: "task list" where
  "table_after_put =
     committed (snd (serve (update_task env0 1 payload_bogus_status)
       (committed (snd (serve (create_task env0 payload_title) [])))))"

text \<open>The status of a row is one of the three values of the spec's data model.\<close>

definition valid_status :: "task \<Rightarrow> bool" where
  "valid_status t = (status t \<in> set [PStr ''todo'', PStr ''in_progress'', PStr ''done''])"

section \<open>Unfolding and helper lemmas\<close>

lemmas store_defs =
  begin_request_def rollback_def commit_def new_id_def session_add_def session_delete_def
  session_set_def query_get_def update_metrics_def internal_error_def serve_def

lemmas example_defs =
  env0_def env_query_fails_def env_commit_fails_def env_metrics_fails_def task1_def task2_def
  payload_title_def payload_full_def payload_no_title_def payload_bad_date_def
  payload_bogus_status_def payload_put_def form_empty_title_def form_titled_def

lemmas handler_defs =
  tasks_query_def get_tasks_def create_task_try_def create_task_def get_task_def
  assign_fields_def update_task_try_def update_task_def delete_task_try_def delete_task_def
  new_task_try_def new_task_def update_task_status_def Task_def dict_get_def due_date_of_def
  py_fromisoformat_def Let_def

lemma find_absent:
  "(\<forall>r\<in>set tbl. id' r \<noteq> task_id) \<Longrightarrow> find (\<lambda>r. id' r = task_id) tbl = None"
  by (simp add: find_None_iff)

lemma find_id: "find (\<lambda>r. id' r = task_id) rows = Some t \<Longrightarrow> id' t = task_id"
  by (auto simp: find_Some_iff)

lemma assign_fields_id: "id' (assign_fields data t) = id' t"
  by (simp add: assign_fields_def Let_def split: option.splits)

lemma assign_fields_created_at: "created_at (assign_fields data t) = created_at t"
  by (simp add: assign_fields_def Let_def split: option.splits)

lemma assign_fields_due_date: "due_date (assign_fields data t) = due_date t"
  by (simp add: assign_fields_def Let_def split: option.splits)

lemma assign_fields_title:
  "title (assign_fields data t) = (case data ''title'' of Some v \<Rightarrow> v | None \<Rightarrow> title t)"
  by (simp add: assign_fields_def Let_def split: option.splits)

lemma assign_fields_description:
  "description (assign_fields data t) =
     (case data ''description'' of Some v \<Rightarrow> v | None \<Rightarrow> description t)"
  by (simp add: assign_fields_def Let_def split: option.splits)

lemma assign_fields_status:
  "status (assign_fields data t) = (case data ''status'' of Some v \<Rightarrow> v | None \<Rightarrow> status t)"
  by (simp add: assign_fields_def Let_def split: option.splits)

lemma assign_fields_priority:
  "priority (assign_fields data t) =
     (case data ''priority'' of Some v \<Rightarrow> v | None \<Rightarrow> priority t)"
  by (simp add: assign_fields_def Let_def split: option.splits)

lemma session_set_twice:
  "id' t2 = id' t1 \<Longrightarrow> session_set t2 (session_set t1 d) = session_set t2 d"
  by (simp add: session_set_def comp_def cong: if_cong)

text \<open>What the \<^verbatim>\<open>try\<close> block of \<^verbatim>\<open>update_task\<close> has done when it returns a response.\<close>

lemma update_task_try_returns:
  assumes "update_task_try e data t d = (Inr r, d')"
  shows "\<exists>t'. r = Json (TaskJson t') 200
     \<and> d' = (session_set t' d)\<lparr>committed := session (session_set t' d)\<rparr>
     \<and> title t' = title (assign_fields data t)
     \<and> description t' = description (assign_fields data t)
     \<and> status t' = status (assign_fields data t)
     \<and> priority t' = priority (assign_fields data t)
     \<and> (case data ''due_date'' of
           None \<Rightarrow> due_date t' = due_date t
         | Some v \<Rightarrow>
             if truthy v
             then \<exists>s x. v = PStr s \<and> fromisoformat e s = Some x \<and> due_date t' = Some x
             else due_date t' = None)
     \<and> id' t' = id' t \<and> created_at t' = created_at t \<and> updated_at t' = utcnow e"
  using assms
  by (auto simp: update_task_try_def Let_def session_set_twice commit_def due_date_of_def
        py_fromisoformat_def assign_fields_id assign_fields_created_at assign_fields_due_date
      split: option.splits sum.splits pyval.splits if_splits)

text \<open>\<^verbatim>\<open>ORDER BY created_at DESC\<close> as a sort on the negated key.\<close>

lemma sort_key_newest_first:
  "sorted_wrt (\<lambda>a b. created_at b \<le> created_at a) (sort_key (\<lambda>r. - created_at r) xs)"
proof -
  have "sorted (map (\<lambda>r. - created_at r) (sort_key (\<lambda>r. - created_at r) xs))"
    by (rule sorted_sort_key)
  then show ?thesis
    by (simp add: sorted_map)
qed

lemma status_route_unrecognized:
  "st \<notin> set [''todo'', ''in_progress'', ''done''] \<Longrightarrow>
     serve (update_task_status e task_id st) tbl = (Redirect ''/'', begin_request tbl)"
  by (simp add: serve_def update_task_status_def)

lemma status_route_unknown_id:
  "(\<forall>r\<in>set tbl. id' r \<noteq> task_id) \<Longrightarrow> query_raises e = None \<Longrightarrow>
     serve (update_task_status e task_id st) tbl = (Redirect ''/'', begin_request tbl)"
  by (simp add: serve_def update_task_status_def query_get_def begin_request_def find_absent)

lemma status_route_unknown_id_store:
  "(\<forall>r\<in>set tbl. id' r \<noteq> task_id) \<Longrightarrow>
     snd (serve (update_task_status e task_id st) tbl) = begin_request tbl"
  by (cases "query_raises e")
     (simp_all add: serve_def update_task_status_def query_get_def begin_request_def find_absent
        internal_error_def rollback_def)

lemma tasks_query_sorted:
  "sorted_wrt (\<lambda>a b. created_at b \<le> created_at a) (tasks_query st prio rows)"
  by (simp add: tasks_query_def Let_def sort_key_newest_first)

lemma tasks_query_rows:
  "mset (tasks_query st prio rows) = mset (filter (\<lambda>r.
       (case st of Some s \<Rightarrow> s = [] \<or> status r = PStr s | None \<Rightarrow> True)
     \<and> (case prio of Some p \<Rightarrow> p = [] \<or> priority r = PStr p | None \<Rightarrow> True)) rows)"
proof (cases st)
  case None
  then show ?thesis
    by (cases prio) (simp_all add: tasks_query_def)
next
  case (Some s)
  then show ?thesis
    by (cases prio) (auto simp: tasks_query_def conj_commute intro: filter_cong)
qed

lemma tasks_query_unfiltered: "mset (tasks_query None None rows) = mset rows"
  by (simp add: tasks_query_def)











text \<open>
  A request that is answered by an error before the count queries of \<^verbatim>\<open>update_metrics\<close>
  leaves the store as it was: the \<^verbatim>\<open>except\<close> branch and the handler of 500 roll back.
\<close>

lemma create_task_error_keeps_store:
  assumes "metrics_raises e = None"
    and "status_code (fst (serve (create_task e data) tbl)) \<noteq> 201"
  shows "snd (serve (create_task e data) tbl) = begin_request tbl"
  using assms
  by (auto simp: serve_def create_task_def create_task_try_def session_add_def Let_def
        commit_def update_metrics_def rollback_def begin_request_def
      split: sum.splits option.splits prod.splits if_splits)

lemma update_task_error_keeps_store:
  assumes "metrics_raises e = None"
    and "status_code (fst (serve (update_task e task_id data) tbl)) \<noteq> 200"
  shows "snd (serve (update_task e task_id data) tbl) = begin_request tbl"
  using assms
  by (auto simp: serve_def update_task_def update_task_try_def query_get_def session_set_def
        Let_def commit_def update_metrics_def rollback_def begin_request_def internal_error_def
      split: sum.splits option.splits prod.splits if_splits)

lemma delete_task_error_keeps_store:
  assumes "metrics_raises e = None"
    and "status_code (fst (serve (delete_task e task_id) tbl)) \<noteq> 200"
  shows "snd (serve (delete_task e task_id) tbl) = begin_request tbl"
  using assms
  by (auto simp: serve_def delete_task_def delete_task_try_def query_get_def
        session_delete_def Let_def commit_def update_metrics_def rollback_def begin_request_def
        internal_error_def
      split: sum.splits option.splits prod.splits if_splits)

text \<open>The form without a title field, and the API without a truthy title, store nothing.\<close>

lemma new_task_missing_title:
  "frm ''title'' = None \<Longrightarrow>
     serve (new_task e ''POST'' frm) tbl
       = (Render ''new_task.html'' (Some (Str (BadRequestKeyError ''title''))) 400,
          begin_request tbl)"
  by (simp add: serve_def new_task_def new_task_try_def rollback_def begin_request_def)

text \<open>
  The routes other than \<^verbatim>\<open>PUT /api/tasks/<id>\<close> keep the status of every row among the
  three values.
\<close>

lemma create_task_keeps_valid_status:
  assumes "\<forall>t\<in>set tbl. valid_status t"
  shows "\<forall>t\<in>set (committed (snd (serve (create_task e data) tbl))). valid_status t"
  using assms
  by (auto simp: serve_def create_task_def create_task_try_def session_add_def Let_def
        commit_def rollback_def begin_request_def Task_def valid_status_def
      split: sum.splits option.splits prod.splits if_splits)

lemma new_task_keeps_valid_status:
  assumes "\<forall>t\<in>set tbl. valid_status t"
  shows "\<forall>t\<in>set (committed (snd (serve (new_task e method frm) tbl))). valid_status t"
  using assms
  by (auto simp: serve_def new_task_def new_task_try_def session_add_def Let_def
        commit_def rollback_def begin_request_def Task_def valid_status_def
      split: sum.splits option.splits prod.splits if_splits)

lemma delete_task_keeps_valid_status:
  assumes "\<forall>t\<in>set tbl. valid_status t"
  shows "\<forall>t\<in>set (committed (snd (serve (delete_task e task_id) tbl))). valid_status t"
  using assms
  by (auto simp: serve_def delete_task_def delete_task_try_def query_get_def
        session_delete_def Let_def commit_def rollback_def begin_request_def internal_error_def
      split: sum.splits option.splits prod.splits if_splits)

lemma update_task_status_keeps_valid_status:
  assumes "\<forall>t\<in>set tbl. valid_status t"
  shows "\<forall>t\<in>set (committed (snd (serve (update_task_status e task_id st) tbl))).
           valid_status t"
proof (cases "st \<in> set [''todo'', ''in_progress'', ''done'']")
  case False
  then show ?thesis
    using assms by (simp add: status_route_unrecognized begin_request_def)
next
  case True
  then have v: "valid_status (t\<lparr>status := PStr st, updated_at := u\<rparr>)" for t u
    by (auto simp: valid_status_def)
  show ?thesis
    using assms True v
    by (auto simp: serve_def update_task_status_def query_get_def session_set_def Let_def
          commit_def rollback_def begin_request_def internal_error_def
        split: sum.splits option.splits prod.splits if_splits)
qed

text \<open>
  A status filter returns only rows of that status; on a table whose rows all have one of
  the three statuses, the three filtered lists together are the unfiltered list.
\<close>

lemma tasks_query_status_only:
  "s \<noteq> [] \<Longrightarrow> \<forall>r\<in>set (tasks_query (Some s) prio rows). status r = PStr s \<and> r \<in> set rows"
  by (cases prio) (auto simp: tasks_query_def Let_def split: if_splits)

lemma tasks_query_union_valid:
  assumes "\<forall>t\<in>set rows. valid_status t"
  shows "set (tasks_query (Some ''todo'') None rows)
           \<union> set (tasks_query (Some ''in_progress'') None rows)
           \<union> set (tasks_query (Some ''done'') None rows)
         = set (tasks_query None None rows)"
  using assms by (auto simp: tasks_query_def valid_status_def)

section \<open>The claims\<close>

text \<open>
  C1. The status of every stored task is to stay one of \<^verbatim>\<open>todo\<close>, \<^verbatim>\<open>in_progress\<close>,
  \<^verbatim>\<open>done\<close>. The status route checks the value before it assigns it, and the creating
  routes never pass one; \<^verbatim>\<open>update_task\<close> assigns \<^verbatim>\<open>data['status']\<close> unchecked. Here
  \<^verbatim>\<open>PUT /api/tasks/1 {"status": "bogus"}\<close> on a table whose task 1 has the status
  \<^verbatim>\<open>todo\<close> is answered 200 and the committed row has the status \<^verbatim>\<open>bogus\<close>.
\<close>

theorem update_task_stores_unrecognized_status:
  "serve (update_task env0 1 payload_bogus_status) [task1] =
     (Json (TaskJson (task1\<lparr>status := PStr ''bogus'', updated_at := 100\<rparr>)) 200,
      \<lparr> committed = [task1\<lparr>status := PStr ''bogus'', updated_at := 100\<rparr>],
        session = [task1\<lparr>status := PStr ''bogus'', updated_at := 100\<rparr>] \<rparr>)
   \<and> valid_status task1
   \<and> \<not> valid_status (task1\<lparr>status := PStr ''bogus'', updated_at := 100\<rparr>)"
  by (simp add: store_defs example_defs handler_defs valid_status_def)




text \<open>
  C3. A create whose title is empty or missing is to fail with 400 and store nothing.
  \<^verbatim>\<open>create_task\<close> checks the title and the form route answers 400 when the field is
  missing, but the form route does not look at the value: \<^verbatim>\<open>POST /task/new\<close> with the
  title field empty, against a store that accepts the row, is answered by the redirect
  and the task with the empty title is committed.
\<close>

theorem new_task_stores_empty_title:
  "serve (new_task env0 ''POST'' form_empty_title) [] =
     (Redirect ''/'',
      \<lparr> committed = [\<lparr> id' = 1, title = PStr '''', description = PStr '''',
                       status = PStr ''todo'', priority = PStr ''medium'', due_date = None,
                       created_at = 100, updated_at = 100 \<rparr>],
        session = [\<lparr> id' = 1, title = PStr '''', description = PStr '''',
                     status = PStr ''todo'', priority = PStr ''medium'', due_date = None,
                     created_at = 100, updated_at = 100 \<rparr>] \<rparr>)"
  by (simp add: store_defs example_defs handler_defs)

text \<open>
  C4. Every successful create with a non-empty title yields a task whose status is
  \<^verbatim>\<open>todo\<close>, whatever status the request supplied, and whose priority is the given value, or
  \<^verbatim>\<open>medium\<close> when the priority field is omitted. For the API a success is the answer 201,
  for the form of \<^verbatim>\<open>/task/new\<close> it is the redirect; in both the new task is the one row
  appended to the table.
\<close>

theorem create_status_todo_priority_given:
  "(serve (create_task e data) tbl = (r, d) \<and> status_code r = 201 \<longrightarrow>
      (\<exists>t. r = Json (TaskJson t) 201 \<and> committed d = tbl @ [t]
         \<and> truthy (title t) \<and> data ''title'' = Some (title t)
         \<and> status t = PStr ''todo''
         \<and> priority t = (case data ''priority'' of None \<Rightarrow> PStr ''medium'' | Some p \<Rightarrow> p)))
   \<and> (serve (new_task e ''POST'' frm) tbl = (r', d') \<and> status_code r' = 302 \<longrightarrow>
      (\<exists>t ttl. r' = Redirect ''/'' \<and> committed d' = tbl @ [t]
         \<and> frm ''title'' = Some ttl \<and> title t = PStr ttl
         \<and> status t = PStr ''todo''
         \<and> priority t =
             (case frm ''priority'' of None \<Rightarrow> PStr ''medium'' | Some p \<Rightarrow> PStr p)))"
proof (intro conjI impI)
  assume "serve (create_task e data) tbl = (r, d) \<and> status_code r = 201"
  then show "\<exists>t. r = Json (TaskJson t) 201 \<and> committed d = tbl @ [t]
         \<and> truthy (title t) \<and> data ''title'' = Some (title t)
         \<and> status t = PStr ''todo''
         \<and> priority t = (case data ''priority'' of None \<Rightarrow> PStr ''medium'' | Some p \<Rightarrow> p)"
    by (auto simp: serve_def create_task_def create_task_try_def begin_request_def
          session_add_def commit_def Task_def dict_get_def rollback_def Let_def
          internal_error_def
        split: if_splits sum.splits option.splits prod.splits)
next
  assume "serve (new_task e ''POST'' frm) tbl = (r', d') \<and> status_code r' = 302"
  then show "\<exists>t ttl. r' = Redirect ''/'' \<and> committed d' = tbl @ [t]
         \<and> frm ''title'' = Some ttl \<and> title t = PStr ttl
         \<and> status t = PStr ''todo''
         \<and> priority t =
             (case frm ''priority'' of None \<Rightarrow> PStr ''medium'' | Some p \<Rightarrow> PStr p)"
    by (auto simp: serve_def new_task_def new_task_try_def begin_request_def
          session_add_def commit_def Task_def rollback_def Let_def internal_error_def
        split: if_splits sum.splits option.splits prod.splits)
qed

theorem create_status_todo_priority_given_witness:
  "status_code (fst (serve (create_task env0 payload_full) [task1])) = 201
   \<and> status_code (fst (serve (new_task env0 ''POST'' form_titled) [task1])) = 302
   \<and> (\<exists>t. fst (serve (create_task env0 payload_full) [task1]) = Json (TaskJson t) 201
        \<and> committed (snd (serve (create_task env0 payload_full) [task1])) = [task1, t]
        \<and> status t = PStr ''todo'' \<and> priority t = PStr ''high'')
   \<and> (\<exists>t. committed (snd (serve (new_task env0 ''POST'' form_titled) [task1])) = [task1, t]
        \<and> status t = PStr ''todo'' \<and> priority t = PStr ''low'')"
proof -
  obtain r d where a: "serve (create_task env0 payload_full) [task1] = (r, d)"
    by (cases "serve (create_task env0 payload_full) [task1]")
  obtain r' d' where b: "serve (new_task env0 ''POST'' form_titled) [task1] = (r', d')"
    by (cases "serve (new_task env0 ''POST'' form_titled) [task1]")
  have ca: "status_code r = 201"
    using a
    by (auto simp: store_defs example_defs handler_defs)
  have cb: "status_code r' = 302"
    using b
    by (auto simp: store_defs example_defs handler_defs)
  have pa: "payload_full ''priority'' = Some (PStr ''high'')"
    by (simp add: payload_full_def)
  have pb: "form_titled ''priority'' = Some ''low''"
    by (simp add: form_titled_def)
  show ?thesis
    using create_status_todo_priority_given
      [where e = env0 and data = payload_full and frm = form_titled and tbl = "[task1]"
         and r = r and d = d and r' = r' and d' = d']
      a b ca cb pa pb
    by auto
qed

text \<open>
  C5. A create, update or delete that fails is to leave the stored table as it was. The
  \<^verbatim>\<open>except\<close> branches roll back, which undoes what is not yet committed; but
  \<^verbatim>\<open>update_metrics()\<close> runs inside the same \<^verbatim>\<open>try\<close> after the commit. Here
  \<^verbatim>\<open>POST /api/tasks {"title": "Buy milk"}\<close> on an empty table, with a store that commits
  and then fails the count query, is answered 400 with the error, and the new task is in
  the committed table.
\<close>

theorem create_task_error_after_commit_keeps_row:
  "serve (create_task env_metrics_fails payload_title) [] =
     (Json (Error (Str (StoreError ''connection lost''))) 400,
      \<lparr> committed = [\<lparr> id' = 1, title = PStr ''Buy milk'', description = PStr '''',
                       status = PStr ''todo'', priority = PStr ''medium'', due_date = None,
                       created_at = 100, updated_at = 100 \<rparr>],
        session = [\<lparr> id' = 1, title = PStr ''Buy milk'', description = PStr '''',
                     status = PStr ''todo'', priority = PStr ''medium'', due_date = None,
                     created_at = 100, updated_at = 100 \<rparr>] \<rparr>)"
  by (simp add: store_defs example_defs handler_defs)

text \<open>
  C6. On a successful \<^verbatim>\<open>PUT /api/tasks/<id>\<close> (the answer 200) the task existed, and of
  title, description, status and priority exactly those present in the payload have the
  payload's value, null included, while an absent one keeps the stored value. A present
  \<^verbatim>\<open>due_date\<close> that is null (or otherwise falsy) sets the column to None, a present date is
  parsed, an absent one leaves the column alone. The key and \<^verbatim>\<open>created_at\<close> are the
  stored ones, \<^verbatim>\<open>updated_at\<close> is the current time, and every other row of the table
  is untouched.
\<close>

theorem update_task_applies_present_fields:
  assumes "serve (update_task e task_id data) tbl = (r, d)" and "status_code r = 200"
  shows "\<exists>t t'. find (\<lambda>r. id' r = task_id) tbl = Some t
     \<and> r = Json (TaskJson t') 200
     \<and> committed d = map (\<lambda>r. if id' r = task_id then t' else r) tbl
     \<and> title t' = (case data ''title'' of Some v \<Rightarrow> v | None \<Rightarrow> title t)
     \<and> description t' = (case data ''description'' of Some v \<Rightarrow> v | None \<Rightarrow> description t)
     \<and> status t' = (case data ''status'' of Some v \<Rightarrow> v | None \<Rightarrow> status t)
     \<and> priority t' = (case data ''priority'' of Some v \<Rightarrow> v | None \<Rightarrow> priority t)
     \<and> (case data ''due_date'' of
           None \<Rightarrow> due_date t' = due_date t
         | Some v \<Rightarrow>
             if truthy v
             then \<exists>s x. v = PStr s \<and> fromisoformat e s = Some x \<and> due_date t' = Some x
             else due_date t' = None)
     \<and> id' t' = task_id \<and> id' t = task_id
     \<and> created_at t' = created_at t \<and> updated_at t' = utcnow e"
proof -
  from assms obtain t where
    q: "query_raises e = None" and f: "find (\<lambda>r. id' r = task_id) tbl = Some t"
    by (auto simp: serve_def update_task_def query_get_def begin_request_def internal_error_def
        split: option.splits sum.splits prod.splits)
  from assms q f have "update_task_try e data t (begin_request tbl) = (Inr r, d)"
    by (auto simp: serve_def update_task_def query_get_def begin_request_def
        split: sum.splits prod.splits)
  from update_task_try_returns [OF this] obtain t' where
    t': "r = Json (TaskJson t') 200"
      "d = (session_set t' (begin_request tbl))
             \<lparr>committed := session (session_set t' (begin_request tbl))\<rparr>"
      "title t' = title (assign_fields data t)"
      "description t' = description (assign_fields data t)"
      "status t' = status (assign_fields data t)"
      "priority t' = priority (assign_fields data t)"
      "(case data ''due_date'' of
           None \<Rightarrow> due_date t' = due_date t
         | Some v \<Rightarrow>
             if truthy v
             then \<exists>s x. v = PStr s \<and> fromisoformat e s = Some x \<and> due_date t' = Some x
             else due_date t' = None)"
      "id' t' = id' t" "created_at t' = created_at t" "updated_at t' = utcnow e"
    by blast
  have i: "id' t = task_id"
    using f by (rule find_id)
  have c: "committed d = map (\<lambda>r. if id' r = task_id then t' else r) tbl"
    using t'(2,8) i by (simp add: session_set_def begin_request_def)
  show ?thesis
    using f t' i c
    by (simp add: assign_fields_title assign_fields_description assign_fields_status
          assign_fields_priority)
qed

theorem update_task_applies_present_fields_witness:
  "status_code (fst (serve (update_task env0 1 payload_put) [task2, task1])) = 200
   \<and> (\<exists>t'. committed (snd (serve (update_task env0 1 payload_put) [task2, task1])) = [task2, t']
         \<and> title t' = PStr ''report v2'' \<and> due_date t' = None
         \<and> status t' = PStr ''todo'' \<and> priority t' = PStr ''high''
         \<and> id' t' = 1 \<and> created_at t' = 10 \<and> updated_at t' = 100)"
proof -
  obtain r d where a: "serve (update_task env0 1 payload_put) [task2, task1] = (r, d)"
    by (cases "serve (update_task env0 1 payload_put) [task2, task1]")
  have c: "status_code r = 200"
    using a by (auto simp: store_defs example_defs handler_defs)
  have f: "find (\<lambda>r. id' r = 1) [task2, task1] = Some task1"
    by (simp add: example_defs)
  have p: "payload_put ''title'' = Some (PStr ''report v2'')"
    "payload_put ''due_date'' = Some PNone" "payload_put ''status'' = None"
    "payload_put ''priority'' = None" "payload_put ''description'' = None"
    by (simp_all add: payload_put_def)
  have i: "id' task2 = 2" "id' task1 = 1" "status task1 = PStr ''todo''"
    "priority task1 = PStr ''high''" "created_at task1 = 10" "utcnow env0 = 100"
    by (simp_all add: example_defs)
  from update_task_applies_present_fields [OF a c] f p i a c show ?thesis
    by auto
qed

text \<open>
  C7. A request \<^verbatim>\<open>GET /task/<id>/status/<status>\<close> whose status is none of \<^verbatim>\<open>todo\<close>,
  \<^verbatim>\<open>in_progress\<close>, \<^verbatim>\<open>done\<close> is answered by a redirect to \<^verbatim>\<open>/\<close> with the store as it
  was; so is one whose id no task has, the lookup having answered that. With an id that
  no task has the store is left as it was in any case.
\<close>

theorem update_task_status_no_change:
  "(st \<notin> set [''todo'', ''in_progress'', ''done''] \<longrightarrow>
      serve (update_task_status e task_id st) tbl = (Redirect ''/'', begin_request tbl))
   \<and> ((\<forall>r\<in>set tbl. id' r \<noteq> task_id) \<and> query_raises e = None \<longrightarrow>
      serve (update_task_status e task_id st) tbl = (Redirect ''/'', begin_request tbl))
   \<and> ((\<forall>r\<in>set tbl. id' r \<noteq> task_id) \<longrightarrow>
      snd (serve (update_task_status e task_id st) tbl) = begin_request tbl)
   \<and> committed (begin_request tbl) = tbl"
  using status_route_unrecognized [of st e task_id tbl]
    status_route_unknown_id [of tbl task_id e st]
    status_route_unknown_id_store [of tbl task_id e st]
  by (simp add: begin_request_def)

theorem update_task_status_no_change_witness:
  "''bogus'' \<notin> set [''todo'', ''in_progress'', ''done'']
   \<and> id' task1 \<noteq> 7 \<and> id' task2 \<noteq> 7 \<and> query_raises env0 = None
   \<and> serve (update_task_status env0 1 ''bogus'') [task1, task2]
       = (Redirect ''/'', begin_request [task1, task2])
   \<and> serve (update_task_status env0 7 ''done'') [task1, task2]
       = (Redirect ''/'', begin_request [task1, task2])
   \<and> snd (serve (update_task_status env_query_fails 7 ''done'') [task1, task2])
       = begin_request [task1, task2]"
proof -
  have h1: "''bogus'' \<notin> set [''todo'', ''in_progress'', ''done'']"
    by simp
  have h2: "\<forall>r\<in>set [task1, task2]. id' r \<noteq> 7"
    by (simp add: example_defs)
  have h3: "query_raises env0 = None"
    by (simp add: env0_def)
  show ?thesis
    using h1 h2 h3
      update_task_status_no_change [of "''bogus''" env0 1 "[task1, task2]"]
      update_task_status_no_change [of "''done''" env0 7 "[task1, task2]"]
      update_task_status_no_change [of "''done''" env_query_fails 7 "[task1, task2]"]
    by simp
qed

text \<open>
  C8. A list filtered by a status holds only tasks of that status, and the lists of the
  three statuses together are to be the unfiltered list. After
  \<^verbatim>\<open>POST /api/tasks {"title": "Buy milk"}\<close> and \<^verbatim>\<open>PUT /api/tasks/1 {"status": "bogus"}\<close>
  the table holds one task; the unfiltered list returns it and each of the three
  filtered lists is empty.
\<close>

theorem status_lists_miss_task_after_put:
  "table_after_put =
     [\<lparr> id' = 1, title = PStr ''Buy milk'', description = PStr '''',
        status = PStr ''bogus'', priority = PStr ''medium'', due_date = None,
        created_at = 100, updated_at = 100 \<rparr>]
   \<and> fst (serve (get_tasks env0 None None) table_after_put)
       = Json (TasksJson table_after_put) 200
   \<and> fst (serve (get_tasks env0 (Some ''todo'') None) table_after_put)
       = Json (TasksJson []) 200
   \<and> fst (serve (get_tasks env0 (Some ''in_progress'') None) table_after_put)
       = Json (TasksJson []) 200
   \<and> fst (serve (get_tasks env0 (Some ''done'') None) table_after_put)
       = Json (TasksJson []) 200"
  by (simp add: table_after_put_def store_defs example_defs handler_defs)

text \<open>
  C9. Whenever the store answers the query of \<^verbatim>\<open>GET /api/tasks\<close>, with or without
  filters, the answer is 200 with the tasks in descending order of \<^verbatim>\<open>created_at\<close>; it
  holds every row that passes the filters, each as often as the table does, so an
  unfiltered call returns the full table.
\<close>

theorem get_tasks_newest_first_all_rows:
  assumes "query_raises e = None"
  shows "\<exists>ts. serve (get_tasks e st prio) tbl = (Json (TasksJson ts) 200, begin_request tbl)
     \<and> sorted_wrt (\<lambda>a b. created_at b \<le> created_at a) ts
     \<and> mset ts = mset (filter (\<lambda>r.
           (case st of Some s \<Rightarrow> s = [] \<or> status r = PStr s | None \<Rightarrow> True)
         \<and> (case prio of Some p \<Rightarrow> p = [] \<or> priority r = PStr p | None \<Rightarrow> True)) tbl)
     \<and> (st = None \<and> prio = None \<longrightarrow> mset ts = mset tbl)"
proof -
  have "serve (get_tasks e st prio) tbl
          = (Json (TasksJson (tasks_query st prio tbl)) 200, begin_request tbl)"
    using assms by (simp add: serve_def get_tasks_def begin_request_def)
  then show ?thesis
    using tasks_query_sorted [of st prio tbl] tasks_query_rows [of st prio tbl]
      tasks_query_unfiltered [of tbl]
    by blast
qed

theorem get_tasks_newest_first_all_rows_witness:
  "query_raises env0 = None
   \<and> serve (get_tasks env0 None None) [task1, task2]
       = (Json (TasksJson [task2, task1]) 200, begin_request [task1, task2])
   \<and> sorted_wrt (\<lambda>a b. created_at b \<le> created_at a) [task2, task1]"
proof -
  have h: "query_raises env0 = None"
    by (simp add: env0_def)
  have e: "serve (get_tasks env0 None None) [task1, task2]
       = (Json (TasksJson [task2, task1]) 200, begin_request [task1, task2])"
    by (simp add: store_defs example_defs handler_defs)
  from get_tasks_newest_first_all_rows [OF h, of None None "[task1, task2]"] h e
  show ?thesis
    by auto
qed

text \<open>
  C10. A \<^verbatim>\<open>status\<close> or \<^verbatim>\<open>priority\<close> query parameter that is present but empty is treated
  as absent: the request is served as the one without the parameter, so
  \<^verbatim>\<open>GET /api/tasks?status=\<close> returns all tasks when the store answers.
\<close>

theorem get_tasks_empty_parameter_is_absent:
  "serve (get_tasks e (Some '''') prio) tbl = serve (get_tasks e None prio) tbl
   \<and> serve (get_tasks e st (Some '''')) tbl = serve (get_tasks e st None) tbl
   \<and> (query_raises e = None \<longrightarrow>
        (\<exists>ts. fst (serve (get_tasks e (Some '''') None) tbl) = Json (TasksJson ts) 200
           \<and> mset ts = mset tbl))"
  by (simp add: serve_def get_tasks_def tasks_query_def begin_request_def split: option.splits)

theorem get_tasks_empty_parameter_is_absent_witness:
  "query_raises env0 = None
   \<and> fst (serve (get_tasks env0 (Some '''') None) [task1, task2])
       = Json (TasksJson [task2, task1]) 200
   \<and> serve (get_tasks env0 (Some ''done'') (Some '''')) [task1, task2]
       = serve (get_tasks env0 (Some ''done'') None) [task1, task2]"
proof -
  have h: "query_raises env0 = None"
    by (simp add: env0_def)
  have e: "fst (serve (get_tasks env0 None None) [task1, task2])
       = Json (TasksJson [task2, task1]) 200"
    by (simp add: store_defs example_defs handler_defs)
  from get_tasks_empty_parameter_is_absent [of env0 None "[task1, task2]" "Some ''done''"] h e
  show ?thesis
    by simp
qed

end
